theory Spec2Isabelle
  imports Main "HOL-Library.Sublist"
begin

section \<open>Data model\<close>

text \<open>
  Exceptions of the Python source are values. \<open>AssertionError\<close> is what a failing
  \<^verbatim>\<open>assert\<close> statement raises, \<open>ValueError\<close> carries the message of the
  \<^verbatim>\<open>raise ValueError(...)\<close> statements, and \<open>TypeError\<close> is available to the
  time-normalisation collaborator.
\<close>

datatype error = AssertionError | ValueError string | TypeError string

text \<open>
  Modelled from the spec: the classes \<open>Condition\<close> and \<open>Alert\<close> are not under src/.
  The spec describes an alert as exposing \<open>id\<close>, \<open>last_update\<close> (an integer epoch) and
  \<open>met_conditions\<close>, a sequence of records pairing a condition with the weather value that
  met it; \<^verbatim>\<open>trigger.py\<close> reads \<^verbatim>\<open>alert.id\<close>, \<^verbatim>\<open>alert.last_update\<close>,
  \<^verbatim>\<open>alert.met_conditions\<close>, \<^verbatim>\<open>met_condition['condition']\<close> and
  \<^verbatim>\<open>.weather_param\<close> of the latter, and nothing else. The field \<open>id\<close> of an alert
  is named \<open>id_alert\<close> here, since \<open>id\<close> is the identity function of HOL.
\<close>

record condition =
  weather_param :: string

record 'v met_condition =
  condition :: condition
  current_value :: 'v

record 'v alert =
  id_alert :: string
  last_update :: int
  met_conditions :: "'v met_condition list"

text \<open>
  The attributes that \<^verbatim>\<open>Trigger.__init__\<close> assigns: \<^verbatim>\<open>self.start\<close>,
  \<^verbatim>\<open>self.end\<close>, \<^verbatim>\<open>self.alerts\<close>, \<^verbatim>\<open>self.alert_channels\<close> and
  \<^verbatim>\<open>self.id\<close> (named \<open>end_trigger\<close> and \<open>id_trigger\<close>, since \<open>end\<close> is a keyword
  and \<open>id\<close> a constant of HOL). The constructor validates \<open>conditions\<close> and \<open>area\<close> but
  assigns neither to the object.
\<close>

record ('v, 'ch) trigger =
  start :: int
  end_trigger :: int
  alerts :: "'v alert list"
  alert_channels :: "'ch list"
  id_trigger :: "string option"

section \<open>Construction\<close>

text \<open>
  \<^verbatim>\<open>Trigger.__init__(self, start, end, conditions, area, alerts=None,
  alert_channels=None, id=None)\<close>. An argument that may be \<^verbatim>\<open>None\<close> is an
  \<open>option\<close>. The two collaborators that are not under src/ are parameters:
  \<open>to_UNIXtime\<close> stands for \<^verbatim>\<open>timeformatutils.to_UNIXtime\<close>, which returns an
  integer epoch or raises, and \<open>OWM_API_POLLING\<close> for
  \<^verbatim>\<open>AlertChannelsEnum.OWM_API_POLLING\<close>. The checks are in the order of the source.
\<close>

definition Trigger_init ::
  "('t option \<Rightarrow> error + int) \<Rightarrow> 'ch \<Rightarrow> 't option \<Rightarrow> 't option \<Rightarrow> 'c list option \<Rightarrow>
   'g list option \<Rightarrow> 'v alert list option \<Rightarrow> 'ch list option \<Rightarrow> string option \<Rightarrow>
   error + ('v, 'ch) trigger" where
  "Trigger_init to_UNIXtime OWM_API_POLLING start_arg end_arg conditions area alerts_arg
      alert_channels_arg id_arg =
    (if start_arg = None then Inl AssertionError
     else if end_arg = None then Inl AssertionError
     else
       case to_UNIXtime start_arg of
         Inl e \<Rightarrow> Inl e
       | Inr unix_start \<Rightarrow>
          (case to_UNIXtime end_arg of
             Inl e \<Rightarrow> Inl e
           | Inr unix_end \<Rightarrow>
              if unix_start \<ge> unix_end
              then Inl (ValueError ''Error: the start epoch must precede the end epoch'')
              else
                (case conditions of
                   None \<Rightarrow> Inl AssertionError
                 | Some cs \<Rightarrow>
                    if length cs = 0
                    then Inl (ValueError
                      ''A trigger must contain at least one condition: you provided none'')
                    else
                      (case area of
                         None \<Rightarrow> Inl AssertionError
                       | Some ar \<Rightarrow>
                          if length ar = 0
                          then Inl (ValueError
                            ''The area for a trigger must contain at least one geoJSON type: you provided none'')
                          else Inr
                            \<lparr> start = unix_start,
                              end_trigger = unix_end,
                              alerts =
                                (case alerts_arg of
                                   None \<Rightarrow> []
                                 | Some al \<Rightarrow> if length al = 0 then [] else al),
                              alert_channels =
                                (case alert_channels_arg of
                                   None \<Rightarrow> [OWM_API_POLLING]
                                 | Some chs \<Rightarrow>
                                    if length chs = 0 then [OWM_API_POLLING] else chs),
                              id_trigger = id_arg \<rparr>))))"

text \<open>
  Modelled from the spec: \<^verbatim>\<open>timeformatutils.to_UNIXtime\<close> is not under src/. The spec
  says that it accepts an integer epoch, a structured date-time or an ISO-8601 string and
  returns the integer epoch. \<open>epoch_of_int\<close> is its restriction to integer inputs, where
  the epoch is the integer itself; it serves as the concrete collaborator when the
  theorems below are applied to concrete inputs.
\<close>

definition epoch_of_int :: "int option \<Rightarrow> error + int" where
  "epoch_of_int x =
    (case x of
       None \<Rightarrow> Inl (TypeError ''The time value must be an int'')
     | Some n \<Rightarrow> Inr n)"

section \<open>Queries\<close>

text \<open>
  A method is a function from the object (and its arguments) to the returned value and
  the object after the call. A \<^verbatim>\<open>for\<close> loop is a recursive function over the list it
  iterates over; the local list \<^verbatim>\<open>result\<close> is an accumulator, and
  \<^verbatim>\<open>result.append(alert)\<close> is \<open>result @ [alert]\<close>.
\<close>

definition get_alerts :: "('v, 'ch) trigger \<Rightarrow> 'v alert list \<times> ('v, 'ch) trigger" where
  "get_alerts self = (alerts self, self)"

fun get_alert_loop :: "'v alert list \<Rightarrow> string \<Rightarrow> 'v alert option" where
  "get_alert_loop [] alert_id = None"
| "get_alert_loop (alert # rest) alert_id =
    (if id_alert alert = alert_id then Some alert else get_alert_loop rest alert_id)"

definition get_alert ::
  "('v, 'ch) trigger \<Rightarrow> string \<Rightarrow> 'v alert option \<times> ('v, 'ch) trigger" where
  "get_alert self alert_id = (get_alert_loop (alerts self) alert_id, self)"

fun get_alerts_since_loop :: "'v alert list \<Rightarrow> int \<Rightarrow> 'v alert list \<Rightarrow> 'v alert list" where
  "get_alerts_since_loop [] unix_timestamp result = result"
| "get_alerts_since_loop (alert # rest) unix_timestamp result =
    get_alerts_since_loop rest unix_timestamp
      (if last_update alert \<ge> unix_timestamp then result @ [alert] else result)"

definition get_alerts_since ::
  "('t option \<Rightarrow> error + int) \<Rightarrow> ('v, 'ch) trigger \<Rightarrow> 't option \<Rightarrow>
   (error + 'v alert list) \<times> ('v, 'ch) trigger" where
  "get_alerts_since to_UNIXtime self timestamp =
    (case to_UNIXtime timestamp of
       Inl e \<Rightarrow> (Inl e, self)
     | Inr unix_timestamp \<Rightarrow>
         (Inr (get_alerts_since_loop (alerts self) unix_timestamp []), self))"

text \<open>
  The inner loop of \<^verbatim>\<open>get_alerts_on\<close> over \<^verbatim>\<open>alert.met_conditions\<close>: at the first
  entry whose condition is on \<open>weather_param\<close> the alert is appended and the loop is left
  (\<^verbatim>\<open>break\<close>).
\<close>

fun get_alerts_on_inner ::
  "'v met_condition list \<Rightarrow> string \<Rightarrow> 'v alert \<Rightarrow> 'v alert list \<Rightarrow> 'v alert list" where
  "get_alerts_on_inner [] wparam alert result = result"
| "get_alerts_on_inner (met_cond # rest) wparam alert result =
    (if weather_param (condition met_cond) = wparam then result @ [alert]
     else get_alerts_on_inner rest wparam alert result)"

fun get_alerts_on_loop :: "'v alert list \<Rightarrow> string \<Rightarrow> 'v alert list \<Rightarrow> 'v alert list" where
  "get_alerts_on_loop [] wparam result = result"
| "get_alerts_on_loop (alert # rest) wparam result =
    get_alerts_on_loop rest wparam
      (get_alerts_on_inner (met_conditions alert) wparam alert result)"

definition get_alerts_on ::
  "('v, 'ch) trigger \<Rightarrow> string \<Rightarrow> 'v alert list \<times> ('v, 'ch) trigger" where
  "get_alerts_on self wparam = (get_alerts_on_loop (alerts self) wparam [], self)"

text \<open>
  What \<^verbatim>\<open>get_alerts_on\<close> looks for in an alert: some entry of its
  \<open>met_conditions\<close> whose condition is on the weather parameter.
\<close>

definition refers_to :: "string \<Rightarrow> 'v alert \<Rightarrow> bool" where
  "refers_to wparam a =
    list_ex (\<lambda>mc. weather_param (condition mc) = wparam) (met_conditions a)"

section \<open>The registry of image types\<close>

text \<open>
  Modelled from the spec: \<^verbatim>\<open>pyowm.commons.databoxes.ImageType\<close> and
  \<^verbatim>\<open>pyowm.commons.enums.ImageTypeEnum\<close> are not under src/ (only their unit test is).
  The spec says that an \<open>ImageType\<close> record holds a symbolic name, a MIME type and a file
  extension, that \<open>ImageTypeEnum\<close> is a fixed read-only collection of such records, and
  that each lookup is a linear scan returning the first record whose attribute equals
  the argument exactly, or the not-found signal (\<open>None\<close>) if none does. The spec does not
  list the records, so the collection is the first argument of the lookups.
\<close>

record ImageType =
  name :: string
  mime_type :: string
  file_extension :: string

fun lookup_by_mime_type :: "ImageType list \<Rightarrow> string \<Rightarrow> ImageType option" where
  "lookup_by_mime_type [] mime = None"
| "lookup_by_mime_type (i # rest) mime =
    (if mime_type i = mime then Some i else lookup_by_mime_type rest mime)"

fun lookup_by_name :: "ImageType list \<Rightarrow> string \<Rightarrow> ImageType option" where
  "lookup_by_name [] nm = None"
| "lookup_by_name (i # rest) nm =
    (if name i = nm then Some i else lookup_by_name rest nm)"

text \<open>
  Modelled from the spec: a collection in agreement with the spec and with
  \<^verbatim>\<open>tests/unit/commons/test_enums.py\<close>, which find a record of MIME type
  \<^verbatim>\<open>image/png\<close> and a record named \<^verbatim>\<open>GEOTIFF\<close>, and none of MIME type
  \<^verbatim>\<open>unexistent/xyz\<close> or named \<^verbatim>\<open>ZOOMOOO\<close>. It is the concrete collection at
  which the lookup theorem is applied.
\<close>

definition PNG :: ImageType where
  "PNG = \<lparr> name = ''PNG'', mime_type = ''image/png'', file_extension = ''png'' \<rparr>"

definition GEOTIFF :: ImageType where
  "GEOTIFF = \<lparr> name = ''GEOTIFF'', mime_type = ''image/tiff'', file_extension = ''tif'' \<rparr>"

definition ImageTypeEnum_items :: "ImageType list" where
  "ImageTypeEnum_items = [PNG, GEOTIFF]"

section \<open>Concrete objects\<close>

text \<open>
  A trigger with three alerts, at which the theorems are applied: \<open>alert_1\<close> has two
  met conditions on the temperature, and \<open>alert_3\<close> has the id of \<open>alert_1\<close>.
\<close>

definition cond_temp :: condition where
  "cond_temp = \<lparr> weather_param = ''temp'' \<rparr>"

definition cond_humidity :: condition where
  "cond_humidity = \<lparr> weather_param = ''humidity'' \<rparr>"

definition alert_1 :: "int alert" where
  "alert_1 = \<lparr> id_alert = ''a1'', last_update = 100,
      met_conditions = [\<lparr> condition = cond_temp, current_value = 301 \<rparr>,
                        \<lparr> condition = cond_temp, current_value = 305 \<rparr>] \<rparr>"

definition alert_2 :: "int alert" where
  "alert_2 = \<lparr> id_alert = ''a2'', last_update = 200,
      met_conditions = [\<lparr> condition = cond_humidity, current_value = 80 \<rparr>] \<rparr>"

definition alert_3 :: "int alert" where
  "alert_3 = \<lparr> id_alert = ''a1'', last_update = 300,
      met_conditions = [\<lparr> condition = cond_humidity, current_value = 85 \<rparr>,
                        \<lparr> condition = cond_temp, current_value = 310 \<rparr>] \<rparr>"

definition polling :: string where
  "polling = ''OWM API POLLING''"

definition trigger_1 :: "(int, string) trigger" where
  "trigger_1 = \<lparr> start = 1000, end_trigger = 2000, alerts = [alert_1, alert_2, alert_3],
      alert_channels = [polling], id_trigger = None \<rparr>"

text \<open>
  A trigger that holds \<open>alert_1\<close> twice: the constructor stores the list of alerts it is
  given as it is, and nothing in the class removes a repeated alert.
\<close>

definition trigger_2 :: "(int, string) trigger" where
  "trigger_2 = \<lparr> start = 1000, end_trigger = 2000, alerts = [alert_1, alert_1, alert_2],
      alert_channels = [polling], id_trigger = None \<rparr>"

lemmas concrete_defs =
  cond_temp_def cond_humidity_def alert_1_def alert_2_def alert_3_def polling_def trigger_1_def
  trigger_2_def

lemmas query_defs = get_alerts_def get_alert_def get_alerts_since_def get_alerts_on_def

section \<open>Construction: validation\<close>

text \<open>
  C1. When \<open>start\<close> and \<open>end\<close> normalise to epochs with the first strictly below the
  second, and \<open>conditions\<close> and \<open>area\<close> are non-empty sequences, the constructor returns
  a trigger (it raises nothing), whose \<open>start\<close> and \<open>end\<close> are \<open>to_UNIXtime(start)\<close> and
  \<open>to_UNIXtime(end)\<close>, whatever the optional arguments are.
\<close>

theorem Trigger_init_valid:
  assumes "to_UNIXtime (Some s) = Inr unix_start"
    and "to_UNIXtime (Some e) = Inr unix_end"
    and "unix_start < unix_end"
    and "cs \<noteq> []"
    and "ar \<noteq> []"
  shows "\<exists>t. Trigger_init to_UNIXtime owm (Some s) (Some e) (Some cs) (Some ar) al chs i = Inr t
           \<and> Inr (start t) = to_UNIXtime (Some s)
           \<and> Inr (end_trigger t) = to_UNIXtime (Some e)"
  using assms by (simp add: Trigger_init_def)

theorem Trigger_init_valid_witness:
  "epoch_of_int (Some 100) = Inr 100 \<and> epoch_of_int (Some 200) = Inr 200
   \<and> (\<exists>t::(int, string) trigger.
        Trigger_init epoch_of_int polling (Some 100) (Some 200)
          (Some [cond_temp]) (Some [''Point'']) None None None = Inr t
        \<and> start t = 100 \<and> end_trigger t = 200)"
  using Trigger_init_valid [where to_UNIXtime = epoch_of_int and s = 100 and e = 200
      and unix_start = 100 and unix_end = 200 and cs = "[cond_temp]"
      and ar = "[''Point'']" and owm = polling and al = None and chs = None
      and i = None]
  by (simp add: epoch_of_int_def)

text \<open>
  C2. When \<open>start\<close> and \<open>end\<close> normalise to epochs with the first equal to or above the
  second, or \<open>conditions\<close> is the empty sequence, or \<open>area\<close> is the empty sequence, the
  constructor raises \<open>ValueError\<close>. The arguments \<open>conditions\<close> and \<open>area\<close> are
  sequences here, as their documented type says; \<^verbatim>\<open>None\<close> in the place of either is
  for the \<^verbatim>\<open>assert\<close> statements of the constructor.
\<close>

theorem Trigger_init_invalid:
  assumes "to_UNIXtime (Some s) = Inr unix_start"
    and "to_UNIXtime (Some e) = Inr unix_end"
    and "unix_start \<ge> unix_end \<or> cs = [] \<or> ar = []"
  shows "\<exists>msg. Trigger_init to_UNIXtime owm (Some s) (Some e) (Some cs) (Some ar) al chs i
           = Inl (ValueError msg)"
  using assms by (auto simp add: Trigger_init_def)

theorem Trigger_init_invalid_witness:
  "epoch_of_int (Some 100) = Inr 100 \<and> epoch_of_int (Some 200) = Inr 200
   \<and> (\<exists>msg. (Trigger_init epoch_of_int polling (Some 200) (Some 200)
          (Some [cond_temp]) (Some [''Point'']) None None None
          :: error + (int, string) trigger) = Inl (ValueError msg))
   \<and> (\<exists>msg. (Trigger_init epoch_of_int polling (Some 200) (Some 100)
          (Some [cond_temp]) (Some [''Point'']) None None None
          :: error + (int, string) trigger) = Inl (ValueError msg))
   \<and> (\<exists>msg. (Trigger_init epoch_of_int polling (Some 100) (Some 200)
          (Some ([]::condition list)) (Some [''Point'']) None None None
          :: error + (int, string) trigger) = Inl (ValueError msg))
   \<and> (\<exists>msg. (Trigger_init epoch_of_int polling (Some 100) (Some 200)
          (Some [cond_temp]) (Some ([]::string list)) None None None
          :: error + (int, string) trigger) = Inl (ValueError msg))"
proof -
  have lo: "epoch_of_int (Some 100) = Inr 100" and hi: "epoch_of_int (Some 200) = Inr 200"
    by (simp_all add: epoch_of_int_def)
  note invalid = Trigger_init_invalid [where to_UNIXtime = epoch_of_int and owm = polling
      and al = None and chs = None and i = None]
  have "\<exists>msg. (Trigger_init epoch_of_int polling (Some 200) (Some 200)
          (Some [cond_temp]) (Some [''Point'']) None None None
          :: error + (int, string) trigger) = Inl (ValueError msg)"
    by (rule invalid [OF hi hi]) simp
  moreover have "\<exists>msg. (Trigger_init epoch_of_int polling (Some 200) (Some 100)
          (Some [cond_temp]) (Some [''Point'']) None None None
          :: error + (int, string) trigger) = Inl (ValueError msg)"
    by (rule invalid [OF hi lo]) simp
  moreover have "\<exists>msg. (Trigger_init epoch_of_int polling (Some 100) (Some 200)
          (Some ([]::condition list)) (Some [''Point'']) None None None
          :: error + (int, string) trigger) = Inl (ValueError msg)"
    by (rule invalid [OF lo hi]) simp
  moreover have "\<exists>msg. (Trigger_init epoch_of_int polling (Some 100) (Some 200)
          (Some [cond_temp]) (Some ([]::string list)) None None None
          :: error + (int, string) trigger) = Inl (ValueError msg)"
    by (rule invalid [OF lo hi]) simp
  ultimately show ?thesis
    using lo hi by blast
qed

text \<open>
  C3. The claim is that construction with \<open>start\<close> or \<open>end\<close> absent raises \<open>ValueError\<close>,
  as the docstring of the class says. The code reaches \<^verbatim>\<open>assert start is not None\<close>
  (or \<^verbatim>\<open>assert end is not None\<close>) first: the constructor raises \<open>AssertionError\<close>,
  which is not a \<open>ValueError\<close>.
\<close>

theorem Trigger_init_absent_AssertionError:
  "(Trigger_init epoch_of_int polling None (Some 200)
      (Some [cond_temp]) (Some [''Point'']) None None None
      :: error + (int, string) trigger) = Inl AssertionError
   \<and> (Trigger_init epoch_of_int polling (Some 100) None
      (Some [cond_temp]) (Some [''Point'']) None None None
      :: error + (int, string) trigger) = Inl AssertionError
   \<and> (\<forall>msg. AssertionError \<noteq> ValueError msg)"
  by (simp add: Trigger_init_def)

text \<open>
  C7. Whenever the constructor returns a trigger: if \<open>alert_channels\<close> was omitted
  (\<^verbatim>\<open>None\<close>) or the empty sequence, the trigger's \<open>alert_channels\<close> is the one-element
  sequence of \<open>OWM_API_POLLING\<close>; if it was a non-empty sequence, the trigger's
  \<open>alert_channels\<close> is that sequence.
\<close>

theorem Trigger_init_alert_channels:
  assumes "Trigger_init to_UNIXtime owm s e cs ar al chs i = Inr t"
  shows "(chs = None \<or> chs = Some [] \<longrightarrow> alert_channels t = [owm])
       \<and> (\<forall>l. chs = Some l \<and> l \<noteq> [] \<longrightarrow> alert_channels t = l)"
  using assms
  by (auto simp add: Trigger_init_def split: if_splits sum.splits option.splits)

theorem Trigger_init_alert_channels_witness:
  "(\<exists>t::(int, string) trigger.
      Trigger_init epoch_of_int polling (Some 100) (Some 200) (Some [cond_temp])
        (Some [''Point'']) None None None = Inr t
      \<and> alert_channels t = [polling])
   \<and> (\<exists>t::(int, string) trigger.
      Trigger_init epoch_of_int polling (Some 100) (Some 200) (Some [cond_temp])
        (Some [''Point'']) None (Some []) None = Inr t
      \<and> alert_channels t = [polling])
   \<and> (\<exists>t::(int, string) trigger.
      Trigger_init epoch_of_int polling (Some 100) (Some 200) (Some [cond_temp])
        (Some [''Point'']) None (Some [''email'', ''sms'']) None = Inr t
      \<and> alert_channels t = [''email'', ''sms''])"
proof -
  let ?init = "\<lambda>chs. (Trigger_init epoch_of_int polling (Some 100) (Some 200) (Some [cond_temp])
        (Some [''Point'']) None chs None :: error + (int, string) trigger)"
  obtain t1 where t1: "?init None = Inr t1"
    by (simp add: Trigger_init_def epoch_of_int_def)
  obtain t2 where t2: "?init (Some []) = Inr t2"
    by (simp add: Trigger_init_def epoch_of_int_def)
  obtain t3 where t3: "?init (Some [''email'', ''sms'']) = Inr t3"
    by (simp add: Trigger_init_def epoch_of_int_def)
  from Trigger_init_alert_channels [OF t1] have "alert_channels t1 = [polling]"
    by simp
  moreover from Trigger_init_alert_channels [OF t2] have "alert_channels t2 = [polling]"
    by simp
  moreover from Trigger_init_alert_channels [OF t3]
  have "alert_channels t3 = [''email'', ''sms'']"
    by simp
  ultimately show ?thesis
    using t1 t2 t3 by simp
qed

section \<open>Queries: results\<close>

lemma get_alert_loop_find:
  "get_alert_loop xs alert_id = List.find (\<lambda>a. id_alert a = alert_id) xs"
  by (induction xs) simp_all

lemma get_alerts_since_loop_filter:
  "get_alerts_since_loop xs t result = result @ filter (\<lambda>a. t \<le> last_update a) xs"
  by (induction xs arbitrary: result) simp_all

lemma get_alerts_on_inner_eq:
  "get_alerts_on_inner mcs wparam a result =
    (if list_ex (\<lambda>mc. weather_param (condition mc) = wparam) mcs then result @ [a]
     else result)"
  by (induction mcs) simp_all

lemma get_alerts_on_loop_filter:
  "get_alerts_on_loop xs wparam result = result @ filter (refers_to wparam) xs"
  by (induction xs arbitrary: result) (simp_all add: get_alerts_on_inner_eq refers_to_def)

lemma count_list_filter:
  "count_list (filter P xs) a = (if P a then count_list xs a else 0)"
  by (induction xs) simp_all

text \<open>
  C4. When \<open>to_UNIXtime\<close> (the collaborator that the constructor calls too) normalises
  the timestamp to an epoch, \<open>get_alerts_since\<close> returns the alerts of the trigger whose
  \<open>last_update\<close> is that epoch or later, each as often and in the order in which the
  trigger holds them.
\<close>

theorem get_alerts_since_filter:
  assumes "to_UNIXtime timestamp = Inr unix_timestamp"
  shows "fst (get_alerts_since to_UNIXtime self timestamp)
           = Inr (filter (\<lambda>a. last_update a \<ge> unix_timestamp) (alerts self))"
  using assms by (simp add: get_alerts_since_def get_alerts_since_loop_filter)

theorem get_alerts_since_filter_witness:
  "epoch_of_int (Some 200) = Inr 200
   \<and> map last_update (alerts trigger_1) = [100, 200, 300]
   \<and> fst (get_alerts_since epoch_of_int trigger_1 (Some 200)) = Inr [alert_2, alert_3]"
  using get_alerts_since_filter [where to_UNIXtime = epoch_of_int and timestamp = "Some 200"
      and unix_timestamp = 200 and self = trigger_1]
  by (simp add: epoch_of_int_def concrete_defs)

text \<open>
  C5. \<open>get_alert\<close> returns \<^verbatim>\<open>None\<close> exactly when no alert of the trigger has the id,
  and it returns an alert exactly when that alert is at the first position of the
  trigger's alerts whose alert has the id: of several alerts with the id, the earliest.
\<close>

theorem get_alert_first_match:
  "(fst (get_alert self alert_id) = None \<longleftrightarrow>
      (\<forall>a \<in> set (alerts self). id_alert a \<noteq> alert_id))
   \<and> (\<forall>a. fst (get_alert self alert_id) = Some a \<longleftrightarrow>
      (\<exists>k < length (alerts self). alerts self ! k = a \<and> id_alert a = alert_id
         \<and> (\<forall>j < k. id_alert (alerts self ! j) \<noteq> alert_id)))"
  by (auto simp add: get_alert_def get_alert_loop_find find_None_iff find_Some_iff)

theorem get_alert_first_match_witness:
  "fst (get_alert trigger_1 ''a9'') = None
   \<and> fst (get_alert trigger_1 ''a1'') = Some alert_1
   \<and> alerts trigger_1 ! 0 = alert_1 \<and> alerts trigger_1 ! 2 = alert_3
   \<and> id_alert alert_3 = ''a1'' \<and> alert_3 \<noteq> alert_1"
proof -
  have absent: "\<forall>a \<in> set (alerts trigger_1). id_alert a \<noteq> ''a9''"
    by (simp add: concrete_defs)
  have earliest: "\<exists>k < length (alerts trigger_1). alerts trigger_1 ! k = alert_1
      \<and> id_alert alert_1 = ''a1'' \<and> (\<forall>j < k. id_alert (alerts trigger_1 ! j) \<noteq> ''a1'')"
    by (rule exI [of _ 0]) (simp add: concrete_defs)
  from absent get_alert_first_match [of trigger_1 "''a9''"]
  have "fst (get_alert trigger_1 ''a9'') = None"
    by blast
  moreover from earliest get_alert_first_match [of trigger_1 "''a1''"]
  have "fst (get_alert trigger_1 ''a1'') = Some alert_1"
    by blast
  moreover have "alerts trigger_1 ! 0 = alert_1 \<and> alerts trigger_1 ! 2 = alert_3
      \<and> id_alert alert_3 = ''a1'' \<and> alert_3 \<noteq> alert_1"
    by (simp add: concrete_defs)
  ultimately show ?thesis
    by blast
qed

text \<open>
  C6. \<open>get_alerts_on\<close> returns the alerts of the trigger that have at least one entry
  in \<open>met_conditions\<close> whose condition is on the weather parameter, in the order of the
  trigger, and no others. Every alert that the trigger holds adds one occurrence to the
  result if it has such an entry, however many of its entries are on the parameter, and
  none otherwise: an alert occurs in the result exactly as often as the trigger holds
  it. An alert that the trigger holds more than once is therefore returned more than
  once, so that \<open>at most once\<close> holds of the alerts that the trigger holds once.
\<close>

theorem get_alerts_on_exact:
  "fst (get_alerts_on self wparam) = filter (refers_to wparam) (alerts self)
   \<and> (\<forall>a. count_list (fst (get_alerts_on self wparam)) a =
        (if refers_to wparam a then count_list (alerts self) a else 0))"
  by (simp add: get_alerts_on_def get_alerts_on_loop_filter count_list_filter)

theorem get_alerts_on_exact_witness:
  "length (filter (\<lambda>mc. weather_param (condition mc) = ''temp'') (met_conditions alert_1)) = 2
   \<and> count_list (alerts trigger_1) alert_1 = 1
   \<and> fst (get_alerts_on trigger_1 ''temp'') = [alert_1, alert_3]
   \<and> count_list (fst (get_alerts_on trigger_1 ''temp'')) alert_1 = 1
   \<and> count_list (fst (get_alerts_on trigger_1 ''temp'')) alert_2 = 0"
  using get_alerts_on_exact [of trigger_1 "''temp''"]
  by (simp add: concrete_defs refers_to_def)

text \<open>
  The constructor accepts the alerts \<open>[alert_1, alert_1, alert_2]\<close> and stores them as
  they are; \<open>alert_1\<close> has an entry on the temperature, and \<open>get_alerts_on\<close> returns it
  twice.
\<close>

theorem get_alerts_on_twice_counterexample:
  "Trigger_init epoch_of_int polling (Some 1000) (Some 2000) (Some [cond_temp])
      (Some [''Point'']) (Some [alert_1, alert_1, alert_2]) None None = Inr trigger_2
   \<and> refers_to ''temp'' alert_1
   \<and> fst (get_alerts_on trigger_2 ''temp'') = [alert_1, alert_1]
   \<and> count_list (fst (get_alerts_on trigger_2 ''temp'')) alert_1 = 2
   \<and> \<not> count_list (fst (get_alerts_on trigger_2 ''temp'')) alert_1 \<le> 1"
  by (simp add: Trigger_init_def epoch_of_int_def get_alerts_on_def refers_to_def concrete_defs)

text \<open>
  C9. The result of \<open>get_alerts_on\<close> is a subsequence of the trigger's alerts: it is
  what is left of them, in their order, after some of them are dropped.
\<close>

theorem get_alerts_on_subseq:
  "subseq (fst (get_alerts_on self wparam)) (alerts self)"
  by (simp add: get_alerts_on_def get_alerts_on_loop_filter)

theorem get_alerts_on_subseq_witness:
  "subseq [alert_1, alert_3] [alert_1, alert_2, alert_3]
   \<and> fst (get_alerts_on trigger_1 ''temp'') = [alert_1, alert_3]"
  using get_alerts_on_subseq [of trigger_1 "''temp''"]
  by (simp add: get_alerts_on_def concrete_defs)

section \<open>Queries: the object is left as it was\<close>

text \<open>
  C10. Each of \<open>get_alerts\<close>, \<open>get_alert\<close>, \<open>get_alerts_since\<close> and \<open>get_alerts_on\<close>
  leaves the trigger as it was, every field of it, also when \<open>get_alerts_since\<close> raises;
  and a second call with the same argument returns what the first call returned.
\<close>

theorem queries_frame:
  "snd (get_alerts self) = self
   \<and> snd (get_alert self alert_id) = self
   \<and> snd (get_alerts_since to_UNIXtime self timestamp) = self
   \<and> snd (get_alerts_on self wparam) = self
   \<and> fst (get_alerts (snd (get_alerts self))) = fst (get_alerts self)
   \<and> fst (get_alert (snd (get_alert self alert_id)) alert_id) = fst (get_alert self alert_id)
   \<and> fst (get_alerts_since to_UNIXtime
            (snd (get_alerts_since to_UNIXtime self timestamp)) timestamp)
       = fst (get_alerts_since to_UNIXtime self timestamp)
   \<and> fst (get_alerts_on (snd (get_alerts_on self wparam)) wparam)
       = fst (get_alerts_on self wparam)"
  by (simp add: query_defs split: sum.splits)

theorem queries_frame_witness:
  "get_alerts trigger_1 = ([alert_1, alert_2, alert_3], trigger_1)
   \<and> get_alert trigger_1 ''a2'' = (Some alert_2, trigger_1)
   \<and> get_alerts_since epoch_of_int trigger_1 (Some 300) = (Inr [alert_3], trigger_1)
   \<and> get_alerts_since epoch_of_int trigger_1 None
       = (Inl (TypeError ''The time value must be an int''), trigger_1)
   \<and> get_alerts_on trigger_1 ''humidity'' = ([alert_2, alert_3], trigger_1)"
proof -
  note frame = queries_frame [where self = trigger_1 and alert_id = "''a2''"
      and to_UNIXtime = epoch_of_int and wparam = "''humidity''"]
  have "fst (get_alerts trigger_1) = [alert_1, alert_2, alert_3]"
    by (simp add: get_alerts_def concrete_defs)
  moreover have "fst (get_alert trigger_1 ''a2'') = Some alert_2"
    by (simp add: get_alert_def concrete_defs)
  moreover have "fst (get_alerts_since epoch_of_int trigger_1 (Some 300)) = Inr [alert_3]"
    by (simp add: get_alerts_since_def epoch_of_int_def concrete_defs)
  moreover have "fst (get_alerts_since epoch_of_int trigger_1 None)
      = Inl (TypeError ''The time value must be an int'')"
    by (simp add: get_alerts_since_def epoch_of_int_def)
  moreover have "fst (get_alerts_on trigger_1 ''humidity'') = [alert_2, alert_3]"
    by (simp add: get_alerts_on_def concrete_defs)
  ultimately show ?thesis
    using frame [where timestamp = "Some 300"] frame [where timestamp = None]
    by (simp add: prod_eq_iff)
qed

section \<open>The registry of image types: lookups\<close>

lemma lookup_by_mime_type_find:
  "lookup_by_mime_type items mime = List.find (\<lambda>i. mime_type i = mime) items"
  by (induction items) simp_all

lemma lookup_by_name_find:
  "lookup_by_name items nm = List.find (\<lambda>i. name i = nm) items"
  by (induction items) simp_all

text \<open>
  C8. For every collection of image types, \<open>lookup_by_mime_type\<close> returns \<^verbatim>\<open>None\<close>
  exactly when no record has the MIME type, and returns a record exactly when that
  record is at the first position whose record has the MIME type; so it returns a
  record for \<^verbatim>\<open>image/png\<close> when the collection has one, and \<^verbatim>\<open>None\<close> for
  \<^verbatim>\<open>unexistent/xyz\<close> when the collection has none. The same holds of
  \<open>lookup_by_name\<close> and the attribute \<open>name\<close>. Both lookups are total functions into
  \<open>option\<close>: there is no error for them to raise.
\<close>

theorem ImageTypeEnum_lookup:
  "(lookup_by_mime_type items mime = None \<longleftrightarrow> (\<forall>r \<in> set items. mime_type r \<noteq> mime))
   \<and> (\<forall>r. lookup_by_mime_type items mime = Some r \<longleftrightarrow>
        (\<exists>k < length items. items ! k = r \<and> mime_type r = mime
           \<and> (\<forall>j < k. mime_type (items ! j) \<noteq> mime)))
   \<and> (lookup_by_name items nm = None \<longleftrightarrow> (\<forall>r \<in> set items. name r \<noteq> nm))
   \<and> (\<forall>r. lookup_by_name items nm = Some r \<longleftrightarrow>
        (\<exists>k < length items. items ! k = r \<and> name r = nm
           \<and> (\<forall>j < k. name (items ! j) \<noteq> nm)))
   \<and> ((\<exists>r \<in> set items. mime_type r = ''image/png'') \<longrightarrow>
        (\<exists>r. lookup_by_mime_type items ''image/png'' = Some r \<and> mime_type r = ''image/png''))
   \<and> ((\<forall>r \<in> set items. mime_type r \<noteq> ''unexistent/xyz'') \<longrightarrow>
        lookup_by_mime_type items ''unexistent/xyz'' = None)"
proof -
  have m_none: "lookup_by_mime_type items m = None \<longleftrightarrow> (\<forall>r \<in> set items. mime_type r \<noteq> m)"
    for m
    by (auto simp add: lookup_by_mime_type_find find_None_iff)
  have m_some: "lookup_by_mime_type items m = Some r \<longleftrightarrow>
        (\<exists>k < length items. items ! k = r \<and> mime_type r = m
           \<and> (\<forall>j < k. mime_type (items ! j) \<noteq> m))" for m r
    by (auto simp add: lookup_by_mime_type_find find_Some_iff)
  have n_none: "lookup_by_name items nm = None \<longleftrightarrow> (\<forall>r \<in> set items. name r \<noteq> nm)"
    by (auto simp add: lookup_by_name_find find_None_iff)
  have n_some: "lookup_by_name items nm = Some r \<longleftrightarrow>
        (\<exists>k < length items. items ! k = r \<and> name r = nm
           \<and> (\<forall>j < k. name (items ! j) \<noteq> nm))" for r
    by (auto simp add: lookup_by_name_find find_Some_iff)
  have png: "\<exists>r. lookup_by_mime_type items ''image/png'' = Some r \<and> mime_type r = ''image/png''"
    if "\<exists>r \<in> set items. mime_type r = ''image/png''"
  proof -
    from that m_none [of "''image/png''"]
    obtain r where r: "lookup_by_mime_type items ''image/png'' = Some r"
      by fastforce
    with m_some [of "''image/png''" r] show ?thesis
      by blast
  qed
  from m_none m_some n_none n_some png show ?thesis
    by blast
qed

theorem ImageTypeEnum_lookup_witness:
  "lookup_by_mime_type ImageTypeEnum_items ''image/png'' = Some PNG
   \<and> lookup_by_mime_type ImageTypeEnum_items ''unexistent/xyz'' = None
   \<and> lookup_by_name ImageTypeEnum_items ''GEOTIFF'' = Some GEOTIFF
   \<and> lookup_by_name ImageTypeEnum_items ''ZOOMOOO'' = None"
proof -
  note defs = ImageTypeEnum_items_def PNG_def GEOTIFF_def
  have png: "\<exists>k < length ImageTypeEnum_items. ImageTypeEnum_items ! k = PNG
      \<and> mime_type PNG = ''image/png''
      \<and> (\<forall>j < k. mime_type (ImageTypeEnum_items ! j) \<noteq> ''image/png'')"
    by (rule exI [of _ 0]) (simp add: defs)
  have tif: "\<exists>k < length ImageTypeEnum_items. ImageTypeEnum_items ! k = GEOTIFF
      \<and> name GEOTIFF = ''GEOTIFF''
      \<and> (\<forall>j < k. name (ImageTypeEnum_items ! j) \<noteq> ''GEOTIFF'')"
    by (rule exI [of _ 1]) (simp add: defs)
  have xyz: "\<forall>r \<in> set ImageTypeEnum_items. mime_type r \<noteq> ''unexistent/xyz''"
    by (simp add: defs)
  have zoo: "\<forall>r \<in> set ImageTypeEnum_items. name r \<noteq> ''ZOOMOOO''"
    by (simp add: defs)
  from png tif ImageTypeEnum_lookup [of ImageTypeEnum_items "''image/png''" "''GEOTIFF''"]
  have "lookup_by_mime_type ImageTypeEnum_items ''image/png'' = Some PNG
      \<and> lookup_by_name ImageTypeEnum_items ''GEOTIFF'' = Some GEOTIFF"
    by blast
  moreover
  from xyz zoo ImageTypeEnum_lookup [of ImageTypeEnum_items "''unexistent/xyz''" "''ZOOMOOO''"]
  have "lookup_by_mime_type ImageTypeEnum_items ''unexistent/xyz'' = None
      \<and> lookup_by_name ImageTypeEnum_items ''ZOOMOOO'' = None"
    by blast
  ultimately show ?thesis
    by blast
qed

end
